theory Spec2Isabelle
  imports Main
begin

section \<open>Values, dictionaries and errors\<close>

text \<open>
  The program is \<^verbatim>\<open>engine.py\<close>: a factory \<^verbatim>\<open>QueryConstructor.construct\<close>, eight
  builder classes with a \<^verbatim>\<open>get_query\<close> method each, and the client class
  \<^verbatim>\<open>ElasticSearchQueryEngine\<close>. Everything the builders handle is a JSON-like Python
  value: \<^verbatim>\<open>None\<close>, a boolean, an integer, a string, a list, or a dictionary with
  string keys (keyword arguments always have string keys, and the body is sent as JSON).
  A dictionary is an association list in insertion order, as Python 3.7 and later iterate
  it; a well-formed dictionary has distinct keys.
\<close>

datatype pyval =
    PNone
  | PBool bool
  | PInt int
  | PStr string
  | PList "pyval list"
  | PDict "(string \<times> pyval) list"

type_synonym dict = "(string \<times> pyval) list"

text \<open>Truthiness, as \<^verbatim>\<open>assert x\<close> tests it.\<close>

fun truthy :: "pyval \<Rightarrow> bool" where
  "truthy PNone = False"
| "truthy (PBool b) = b"
| "truthy (PInt n) = (n \<noteq> 0)"
| "truthy (PStr s) = (s \<noteq> [])"
| "truthy (PList xs) = (xs \<noteq> [])"
| "truthy (PDict kvs) = (kvs \<noteq> [])"

text \<open>
  The exceptions the code can raise. An assertion error carries the message template of
  the \<^verbatim>\<open>assert\<close> statement and the value formatted into its \<^verbatim>\<open>{}\<close>. A type
  error carries what went wrong in the call. \<open>SequenceOfPairs\<close> is not a Python
  exception: it marks the one input this development leaves out, \<^verbatim>\<open>dict.update\<close> on a
  non-empty list (Python reads it as a sequence of key/value pairs, whose keys need not be
  strings), and \<open>NonStringPath\<close> marks a truthy path that is not a string (Python would
  format its \<^verbatim>\<open>str()\<close> into the field names).
\<close>

datatype type_error =
    MissingArguments "string list"
  | MultipleValues string
  | TooManyPositional
  | TakesNoArguments
  | SuperNotInstance
  | NotIterable

datatype error =
    AssertionError string pyval
  | TypeError type_error
  | AttributeError string
  | ValueError
  | SequenceOfPairs
  | NonStringPath

text \<open>\<^verbatim>\<open>d[k] = v\<close>: an existing key keeps its place, a new key goes last.\<close>

fun dict_set :: "dict \<Rightarrow> string \<Rightarrow> pyval \<Rightarrow> dict" where
  "dict_set [] k v = [(k, v)]"
| "dict_set ((k', v') # d) k v =
     (if k' = k then (k', v) # d else (k', v') # dict_set d k v)"

text \<open>\<^verbatim>\<open>d.get(k, default)\<close>.\<close>

definition dict_get :: "dict \<Rightarrow> string \<Rightarrow> pyval \<Rightarrow> pyval" where
  "dict_get d k dflt = (case map_of d k of Some v \<Rightarrow> v | None \<Rightarrow> dflt)"

text \<open>
  Merging the items of one dictionary into another, in order: the loop inside
  \<^verbatim>\<open>d.update(other)\<close>, and also a dictionary comprehension (starting from the empty
  dictionary).
\<close>

definition merge :: "dict \<Rightarrow> dict \<Rightarrow> dict" where
  "merge d other = fold (\<lambda>(k, v) acc. dict_set acc k v) other d"

text \<open>The size of a dictionary, counting its values and entries.\<close>

definition dict_size :: "dict \<Rightarrow> nat" where
  "dict_size d = size_list (size_prod (\<lambda>_. 0) size) d"

text \<open>
  \<^verbatim>\<open>d.update(other)\<close> for any value \<open>other\<close>: a dictionary is merged; \<^verbatim>\<open>None\<close>,
  booleans and integers are not iterable; a string is iterated character by character,
  and a character is not a pair; an empty sequence changes nothing.
\<close>

fun update :: "dict \<Rightarrow> pyval \<Rightarrow> error + dict" where
  "update d (PDict other) = Inr (merge d other)"
| "update d PNone = Inl (TypeError NotIterable)"
| "update d (PBool b) = Inl (TypeError NotIterable)"
| "update d (PInt n) = Inl (TypeError NotIterable)"
| "update d (PStr s) = (if s = [] then Inr d else Inl ValueError)"
| "update d (PList xs) = (if xs = [] then Inr d else Inl SequenceOfPairs)"

text \<open>\<^verbatim>\<open>x.items()\<close>: only a dictionary has the method.\<close>

fun items :: "pyval \<Rightarrow> error + dict" where
  "items (PDict kvs) = Inr kvs"
| "items v = Inl (AttributeError ''items'')"

section \<open>Binding the arguments of a call\<close>

text \<open>
  Every method of the program has the shape
  \<^verbatim>\<open>def m(self, p1, ..., pn, o1=d1, ..., **kwargs)\<close>. A call gives positional values
  and keywords. Python 3 binds the positional values to the parameters in order, then
  each keyword: one that names a parameter binds it (a type error if it is bound
  already), any other keyword goes to \<^verbatim>\<open>**kwargs\<close>. Then it checks that there were not
  too many positional values and that every required parameter is bound, and fills in the
  defaults. The receiver is the first parameter, \<open>self\<close>; no method body of the builders
  reads it, so it is bound to \<open>PNone\<close> here.
\<close>

fun bind_keywords :: "string list \<Rightarrow> dict \<Rightarrow> dict \<Rightarrow> dict \<Rightarrow> error + (dict \<times> dict)" where
  "bind_keywords params bound extra [] = Inr (bound, extra)"
| "bind_keywords params bound extra ((k, v) # kws) =
     (if k \<in> set params then
        (if k \<in> set (map fst bound) then Inl (TypeError (MultipleValues k))
         else bind_keywords params (bound @ [(k, v)]) extra kws)
      else bind_keywords params bound (extra @ [(k, v)]) kws)"

definition bind_args ::
  "string list \<Rightarrow> dict \<Rightarrow> pyval list \<Rightarrow> dict \<Rightarrow> error + (dict \<times> dict)" where
  "bind_args required optional args kwargs =
     (let params = ''self'' # required @ map fst optional in
      case bind_keywords params (zip params (PNone # args)) [] kwargs of
        Inl e \<Rightarrow> Inl e
      | Inr (bound, extra) \<Rightarrow>
          if length params < Suc (length args) then Inl (TypeError TooManyPositional)
          else (case filter (\<lambda>p. p \<notin> set (map fst bound)) required of
                  [] \<Rightarrow>
                    Inr (bound @ filter (\<lambda>(p, d). p \<notin> set (map fst bound)) optional, extra)
                | p # ps \<Rightarrow> Inl (TypeError (MissingArguments (p # ps)))))"

text \<open>The value of a bound parameter (every parameter is bound once \<open>bind_args\<close> succeeds).\<close>

definition arg :: "dict \<Rightarrow> string \<Rightarrow> pyval" where
  "arg bound p = dict_get bound p PNone"

section \<open>The factory\<close>

datatype constructor_cls =
    TermQueryConstructor
  | MatchQueryConstructor
  | MultiMatchQueryConstructor
  | NestedQueryConstructor
  | MustQueryConstructor
  | ShouldQueryConstructor
  | FilterQueryConstructor
  | BoolQueryConstructor

text \<open>
  \<^verbatim>\<open>QueryConstructor.construct(type, **kwargs)\<close>: the chain of conditional expressions,
  the assertion, and the instantiation \<^verbatim>\<open>constructor_cls(**kwargs)\<close>. No class defines
  \<^verbatim>\<open>__init__\<close>, so a keyword given to the instantiation is a type error. The builders
  hold no state: an instance is its class.
\<close>

definition construct :: "pyval \<Rightarrow> dict \<Rightarrow> error + constructor_cls" where
  "construct type kwargs =
     (let constructor_cls =
        (if type = PStr ''term'' then Some TermQueryConstructor
         else if type = PStr ''match'' then Some MatchQueryConstructor
         else if type = PStr ''multi_match'' then Some MultiMatchQueryConstructor
         else if type = PStr ''nested'' then Some NestedQueryConstructor
         else if type = PStr ''must'' then Some MustQueryConstructor
         else if type = PStr ''should'' then Some ShouldQueryConstructor
         else if type = PStr ''bool'' then Some BoolQueryConstructor
         else None)
      in case constructor_cls of
           None \<Rightarrow> Inl (AssertionError ''Unsupported type received as argument: {}'' type)
         | Some c \<Rightarrow> if kwargs = [] then Inr c else Inl (TypeError TakesNoArguments))"

section \<open>The builders\<close>

text \<open>
  Each method body is a function of the bound parameters; \<open>get_query\<close> below binds the
  arguments of a call and runs the body of the receiver's class. The parameter that the
  source calls \<^verbatim>\<open>values\<close> is \<open>vals\<close> here. \<^verbatim>\<open>assert\<close> statements are executed
  (the interpreter does not run with \<^verbatim>\<open>-O\<close>).
\<close>

definition TermQueryConstructor_get_query :: "pyval \<Rightarrow> pyval \<Rightarrow> dict \<Rightarrow> error + pyval" where
  "TermQueryConstructor_get_query index mapping vals =
     (if vals = [] then
        Inl (AssertionError ''Invalid values received as argument: {}'' (PDict vals))
      else
        let query_params = dict_get vals ''query_params'' (PDict vals);
            additional_query_params = dict_get vals ''additional_query_params'' (PDict [])
        in case items query_params of
             Inl e \<Rightarrow> Inl e
           | Inr cols \<Rightarrow>
               (case update (merge [] cols) additional_query_params of
                  Inl e \<Rightarrow> Inl e
                | Inr clause \<Rightarrow> Inr (PDict [(''term'', PDict clause)])))"

definition MatchQueryConstructor_get_query :: "pyval \<Rightarrow> pyval \<Rightarrow> dict \<Rightarrow> error + pyval" where
  "MatchQueryConstructor_get_query index mapping vals =
     (if vals = [] then
        Inl (AssertionError ''Invalid values received as argument: {}'' (PDict vals))
      else
        let query_params = dict_get vals ''query_params'' (PDict vals);
            additional_query_params = dict_get vals ''additional_query_params'' (PDict [])
        in case items query_params of
             Inl e \<Rightarrow> Inl e
           | Inr cols \<Rightarrow>
               (case update (merge [] cols) additional_query_params of
                  Inl e \<Rightarrow> Inl e
                | Inr clause \<Rightarrow> Inr (PDict [(''match'', PDict clause)])))"

definition MultiMatchQueryConstructor_get_query ::
  "pyval \<Rightarrow> pyval \<Rightarrow> pyval \<Rightarrow> pyval \<Rightarrow> pyval \<Rightarrow> dict \<Rightarrow> error + pyval" where
  "MultiMatchQueryConstructor_get_query index mapping query fields q_type kwargs =
     (if \<not> truthy fields then
        Inl (AssertionError ''Invalid fields received as argument: {}'' fields)
      else
        let additional_query_params = dict_get kwargs ''additional_query_params'' (PDict [])
        in case update [(''query'', query), (''fields'', fields), (''type'', q_type)]
                  additional_query_params of
             Inl e \<Rightarrow> Inl e
           | Inr dict_multi_match \<Rightarrow> Inr (PDict [(''multi_match'', PDict dict_multi_match)]))"

text \<open>
  The comprehension of the nested builder,
  \<^verbatim>\<open>{"{}.{}".format(path, field): val for field, val in query_params.items()}\<close>,
  as a loop over the items with the dictionary built so far.
\<close>

fun nested_fields :: "pyval \<Rightarrow> dict \<Rightarrow> dict \<Rightarrow> error + dict" where
  "nested_fields path [] acc = Inr acc"
| "nested_fields path ((field, val) # rest) acc =
     (case path of
        PStr p \<Rightarrow> nested_fields path rest (dict_set acc (p @ ''.'' @ field) val)
      | _ \<Rightarrow> Inl NonStringPath)"

definition NestedQueryConstructor_get_query ::
  "pyval \<Rightarrow> pyval \<Rightarrow> pyval \<Rightarrow> dict \<Rightarrow> error + pyval" where
  "NestedQueryConstructor_get_query index mapping path vals =
     (if \<not> truthy path then Inl (AssertionError ''Invalid path received: {}'' path)
      else if vals = [] then
        Inl (AssertionError ''Invalid values received as argument: {}'' (PDict vals))
      else
        let query_params = dict_get vals ''query_params'' (PDict vals);
            additional_query_params = dict_get vals ''additional_query_params'' (PDict [])
        in case items query_params of
             Inl e \<Rightarrow> Inl e
           | Inr fields \<Rightarrow>
               (case nested_fields path fields [] of
                  Inl e \<Rightarrow> Inl e
                | Inr query \<Rightarrow>
                    (case update [(''path'', path), (''query'', PDict query)]
                            additional_query_params of
                       Inl e \<Rightarrow> Inl e
                     | Inr nested \<Rightarrow> Inr (PDict [(''nested'', PDict nested)]))))"

subsection \<open>Method dispatch\<close>

text \<open>
  \<open>get_query c args kwargs\<close> is the call \<^verbatim>\<open>instance.get_query(*args, **kwargs)\<close> on an
  instance of class \<open>c\<close>. \<open>ConditionalQueryMixin_get_query\<close> is the method the
  combinators reach through \<^verbatim>\<open>super\<close>, and \<open>for_query_types\<close> is its loop, with the
  items still to visit and the list \<^verbatim>\<open>body\<close> built so far. The loop calls
  \<^verbatim>\<open>constructor.get_query(query_type_config)\<close>: one positional value and no keyword.
  \<^verbatim>\<open>BoolQueryConstructor.get_query\<close> evaluates
  \<^verbatim>\<open>super(FilterQueryConstructor, self)\<close> with a receiver that is no instance of
  \<^verbatim>\<open>FilterQueryConstructor\<close>, which Python refuses with a type error.
\<close>

function get_query :: "constructor_cls \<Rightarrow> pyval list \<Rightarrow> dict \<Rightarrow> error + pyval"
  and ConditionalQueryMixin_get_query :: "pyval \<Rightarrow> pyval \<Rightarrow> dict \<Rightarrow> error + pyval list"
  and for_query_types :: "dict \<Rightarrow> pyval list \<Rightarrow> error + pyval list"
where
  "get_query TermQueryConstructor args kwargs =
     (case bind_args [''index'', ''mapping''] [] args kwargs of
        Inl e \<Rightarrow> Inl e
      | Inr (bound, vals) \<Rightarrow>
          TermQueryConstructor_get_query (arg bound ''index'') (arg bound ''mapping'') vals)"
| "get_query MatchQueryConstructor args kwargs =
     (case bind_args [''index'', ''mapping''] [] args kwargs of
        Inl e \<Rightarrow> Inl e
      | Inr (bound, vals) \<Rightarrow>
          MatchQueryConstructor_get_query (arg bound ''index'') (arg bound ''mapping'') vals)"
| "get_query MultiMatchQueryConstructor args kwargs =
     (case bind_args [''index'', ''mapping'', ''query'', ''fields'']
             [(''q_type'', PStr ''cross_fields'')] args kwargs of
        Inl e \<Rightarrow> Inl e
      | Inr (bound, kw) \<Rightarrow>
          MultiMatchQueryConstructor_get_query (arg bound ''index'') (arg bound ''mapping'')
            (arg bound ''query'') (arg bound ''fields'') (arg bound ''q_type'') kw)"
| "get_query NestedQueryConstructor args kwargs =
     (case bind_args [''index'', ''mapping'', ''path''] [] args kwargs of
        Inl e \<Rightarrow> Inl e
      | Inr (bound, vals) \<Rightarrow>
          NestedQueryConstructor_get_query (arg bound ''index'') (arg bound ''mapping'')
            (arg bound ''path'') vals)"
| "get_query MustQueryConstructor args kwargs =
     (case bind_args [''index'', ''mapping''] [] args kwargs of
        Inl e \<Rightarrow> Inl e
      | Inr (bound, kw) \<Rightarrow>
          (case ConditionalQueryMixin_get_query (arg bound ''index'') (arg bound ''mapping'') kw of
             Inl e \<Rightarrow> Inl e
           | Inr body \<Rightarrow> Inr (PDict [(''must'', PList body)])))"
| "get_query ShouldQueryConstructor args kwargs =
     (case bind_args [''index'', ''mapping''] [] args kwargs of
        Inl e \<Rightarrow> Inl e
      | Inr (bound, kw) \<Rightarrow>
          (case ConditionalQueryMixin_get_query (arg bound ''index'') (arg bound ''mapping'') kw of
             Inl e \<Rightarrow> Inl e
           | Inr body \<Rightarrow> Inr (PDict [(''should'', PList body)])))"
| "get_query FilterQueryConstructor args kwargs =
     (case bind_args [''index'', ''mapping''] [] args kwargs of
        Inl e \<Rightarrow> Inl e
      | Inr (bound, kw) \<Rightarrow>
          (case ConditionalQueryMixin_get_query (arg bound ''index'') (arg bound ''mapping'') kw of
             Inl e \<Rightarrow> Inl e
           | Inr body \<Rightarrow> Inr (PDict [(''filter'', PList body)])))"
| "get_query BoolQueryConstructor args kwargs =
     (case bind_args [''index'', ''mapping''] [] args kwargs of
        Inl e \<Rightarrow> Inl e
      | Inr (bound, kw) \<Rightarrow> Inl (TypeError SuperNotInstance))"
| "ConditionalQueryMixin_get_query index mapping kwargs =
     (if kwargs = [] then Inl (AssertionError ''Invalid kwargs received: {}'' (PDict kwargs))
      else
        let query_types = dict_get kwargs ''query_types'' PNone in
        if \<not> truthy query_types then
          Inl (AssertionError ''Invalid query_types received as argument: {}'' query_types)
        else (case items query_types of
                Inl e \<Rightarrow> Inl e
              | Inr entries \<Rightarrow> for_query_types entries []))"
| "for_query_types [] body = Inr body"
| "for_query_types ((query_type, query_type_config) # entries) body =
     (case construct (PStr query_type) [] of
        Inl e \<Rightarrow> Inl e
      | Inr constructor \<Rightarrow>
          (case get_query constructor [query_type_config] [] of
             Inl e \<Rightarrow> Inl e
           | Inr query \<Rightarrow> for_query_types entries (body @ [query])))"
  by pat_completeness auto

section \<open>The client\<close>

text \<open>
  An \<^verbatim>\<open>ElasticSearchQueryEngine\<close> holds a host and a port. \<^verbatim>\<open>send_request\<close> hands the
  request to the HTTP library; the model stops there and returns the request that is
  sent: the method name (every caller passes \<^verbatim>\<open>"get"\<close>, which \<^verbatim>\<open>lower()\<close> leaves as
  it is), the parts that \<^verbatim>\<open>get_url\<close> formats into the URL, the headers and the JSON
  body.
\<close>

record engine =
  host :: pyval
  port :: pyval

record request =
  req_method :: string
  req_host :: pyval
  req_port :: pyval
  req_index :: pyval
  req_mapping :: pyval
  req_headers :: dict
  req_json :: pyval

definition send_request :: "engine \<Rightarrow> pyval \<Rightarrow> pyval \<Rightarrow> string \<Rightarrow> pyval \<Rightarrow> request" where
  "send_request self index mapping meth body =
     \<lparr>req_method = meth, req_host = host self, req_port = port self, req_index = index,
      req_mapping = mapping, req_headers = [], req_json = body\<rparr>"

text \<open>
  \<^verbatim>\<open>_query(self, type, index, mapping, **kwargs)\<close>, here \<open>engine_query\<close>: the builder's
  clause under the key \<^verbatim>\<open>"query"\<close>, then \<^verbatim>\<open>body.update(other_params)\<close>.
\<close>

definition engine_query :: "pyval list \<Rightarrow> dict \<Rightarrow> error + pyval" where
  "engine_query args kwargs =
     (case bind_args [''type'', ''index'', ''mapping''] [] args kwargs of
        Inl e \<Rightarrow> Inl e
      | Inr (bound, kw) \<Rightarrow>
          (case construct (arg bound ''type'') [] of
             Inl e \<Rightarrow> Inl e
           | Inr constructor \<Rightarrow>
               (case get_query constructor [arg bound ''index'', arg bound ''mapping''] kw of
                  Inl e \<Rightarrow> Inl e
                | Inr query \<Rightarrow>
                    (case update [(''query'', query)] (dict_get kw ''other_params'' (PDict [])) of
                       Inl e \<Rightarrow> Inl e
                     | Inr body \<Rightarrow> Inr (PDict body)))))"

text \<open>
  The convenience methods \<^verbatim>\<open>term_query\<close>, \<^verbatim>\<open>match\<close>, \<^verbatim>\<open>nested\<close>, \<^verbatim>\<open>must\<close>,
  \<^verbatim>\<open>should\<close>, \<^verbatim>\<open>filter\<close> and \<^verbatim>\<open>bool\<close> differ in the type tag and in their
  parameters only: \<open>engine_call\<close> is their common body, and \<^verbatim>\<open>nested\<close> has the extra
  parameter \<^verbatim>\<open>path\<close>, which its body never mentions.
\<close>

definition engine_call ::
  "string \<Rightarrow> string list \<Rightarrow> engine \<Rightarrow> pyval list \<Rightarrow> dict \<Rightarrow> error + request" where
  "engine_call type required self args kwargs =
     (case bind_args required [] args kwargs of
        Inl e \<Rightarrow> Inl e
      | Inr (bound, vals) \<Rightarrow>
          (case engine_query [PStr type, arg bound ''index'', arg bound ''mapping''] vals of
             Inl e \<Rightarrow> Inl e
           | Inr body \<Rightarrow>
               Inr (send_request self (arg bound ''index'') (arg bound ''mapping'') ''get'' body)))"

definition engine_term_query :: "engine \<Rightarrow> pyval list \<Rightarrow> dict \<Rightarrow> error + request" where
  "engine_term_query = engine_call ''term'' [''index'', ''mapping'']"

definition engine_match :: "engine \<Rightarrow> pyval list \<Rightarrow> dict \<Rightarrow> error + request" where
  "engine_match = engine_call ''match'' [''index'', ''mapping'']"

definition engine_nested :: "engine \<Rightarrow> pyval list \<Rightarrow> dict \<Rightarrow> error + request" where
  "engine_nested = engine_call ''nested'' [''index'', ''mapping'', ''path'']"

definition engine_must :: "engine \<Rightarrow> pyval list \<Rightarrow> dict \<Rightarrow> error + request" where
  "engine_must = engine_call ''must'' [''index'', ''mapping'']"

definition engine_should :: "engine \<Rightarrow> pyval list \<Rightarrow> dict \<Rightarrow> error + request" where
  "engine_should = engine_call ''should'' [''index'', ''mapping'']"

definition engine_filter :: "engine \<Rightarrow> pyval list \<Rightarrow> dict \<Rightarrow> error + request" where
  "engine_filter = engine_call ''filter'' [''index'', ''mapping'']"

definition engine_bool :: "engine \<Rightarrow> pyval list \<Rightarrow> dict \<Rightarrow> error + request" where
  "engine_bool = engine_call ''bool'' [''index'', ''mapping'']"

text \<open>
  \<^verbatim>\<open>multi_match\<close> names \<^verbatim>\<open>query\<close>, \<^verbatim>\<open>fields\<close> and \<^verbatim>\<open>q_type\<close> and passes them on as
  keywords, before its own \<^verbatim>\<open>**kwargs\<close> (which cannot hold these three names).
\<close>

definition engine_multi_match :: "engine \<Rightarrow> pyval list \<Rightarrow> dict \<Rightarrow> error + request" where
  "engine_multi_match self args kwargs =
     (case bind_args [''index'', ''mapping'', ''query'', ''fields'']
             [(''q_type'', PStr ''cross_fields'')] args kwargs of
        Inl e \<Rightarrow> Inl e
      | Inr (bound, kw) \<Rightarrow>
          (case engine_query [PStr ''multi_match'', arg bound ''index'', arg bound ''mapping'']
                  ([(''query'', arg bound ''query''), (''fields'', arg bound ''fields''),
                    (''q_type'', arg bound ''q_type'')] @ kw) of
             Inl e \<Rightarrow> Inl e
           | Inr body \<Rightarrow>
               Inr (send_request self (arg bound ''index'') (arg bound ''mapping'') ''get'' body)))"

section \<open>Termination of the recursion through the combinators\<close>

text \<open>
  The recursive call of the loop passes one value of the \<^verbatim>\<open>query_types\<close> dictionary, which
  is smaller than the keywords that held the dictionary: the measure is the size of the
  arguments.
\<close>

lemma dict_size_Cons: "dict_size ((k, v) # d) = size v + 2 + dict_size d"
  by (simp add: dict_size_def)

lemma dict_size_Nil: "dict_size [] = 0"
  by (simp add: dict_size_def)

lemma bind_keywords_extra_size:
  "bind_keywords params bound extra kws = Inr (b, x) \<Longrightarrow>
   dict_size x \<le> dict_size extra + dict_size kws"
proof (induction kws arbitrary: bound extra)
  case Nil
  then show ?case by simp
next
  case (Cons kv kws)
  obtain k v where kv: "kv = (k, v)" by (cases kv)
  show ?case
  proof (cases "k \<in> set params")
    case True
    with Cons.prems kv have "bind_keywords params (bound @ [(k, v)]) extra kws = Inr (b, x)"
      by (simp split: if_splits)
    from Cons.IH [OF this] show ?thesis by (simp add: kv dict_size_def)
  next
    case False
    with Cons.prems kv have "bind_keywords params bound (extra @ [(k, v)]) kws = Inr (b, x)"
      by simp
    from Cons.IH [OF this] show ?thesis by (simp add: kv dict_size_def)
  qed
qed

lemma bind_args_extra_size:
  "bind_args required optional args kwargs = Inr (b, x) \<Longrightarrow> dict_size x \<le> dict_size kwargs"
  unfolding bind_args_def Let_def
  by (auto split: sum.splits if_splits list.splits dest!: bind_keywords_extra_size
           simp: dict_size_def)

lemma map_of_size: "map_of d k = Some v \<Longrightarrow> size v < dict_size d"
  by (induction d) (auto simp: dict_size_def split: if_splits)

lemma items_dict_get_size:
  "items (dict_get kwargs k PNone) = Inr b \<Longrightarrow> dict_size b < dict_size kwargs"
proof -
  assume "items (dict_get kwargs k PNone) = Inr b"
  then have "dict_get kwargs k PNone = PDict b"
    by (cases "dict_get kwargs k PNone") auto
  then have "map_of kwargs k = Some (PDict b)"
    by (auto simp: dict_get_def split: option.splits)
  from map_of_size [OF this] show ?thesis by (simp add: dict_size_def)
qed

termination get_query
  by (relation "measure (\<lambda>x. case x of
           Inl (c, args, kwargs) \<Rightarrow> 2 * (size_list size args + dict_size kwargs) + 1
         | Inr (Inl (i, m, kwargs)) \<Rightarrow> 2 * dict_size kwargs
         | Inr (Inr (entries, body)) \<Rightarrow> 2 * dict_size entries)")
     (auto dest!: bind_args_extra_size items_dict_get_size simp: dict_size_Cons dict_size_Nil)

section \<open>Properties of argument binding\<close>

lemma bind_keywords_disjoint:
  "set (map fst kws) \<inter> set params = {} \<Longrightarrow>
   bind_keywords params bound extra kws = Inr (bound, extra @ kws)"
  by (induction kws arbitrary: extra) auto

lemma bind_keywords_type_error:
  "bind_keywords params bound extra kws = Inl e \<Longrightarrow> \<exists>t. e = TypeError t"
  by (induction params bound extra kws rule: bind_keywords.induct) (auto split: if_splits)

lemma bind_args_type_error:
  "bind_args required optional args kwargs = Inl e \<Longrightarrow> \<exists>t. e = TypeError t"
  unfolding bind_args_def Let_def
  by (auto split: sum.splits prod.splits if_splits list.splits dest: bind_keywords_type_error)

lemma bind_keywords_extra_keys:
  "bind_keywords params bound extra kws = Inr (b, x) \<Longrightarrow>
   set (map fst extra) \<inter> set params = {} \<Longrightarrow>
   set (map fst x) \<inter> set params = {}"
  by (induction params bound extra kws rule: bind_keywords.induct) (auto split: if_splits)

lemma bind_args_Inr_keywords:
  "bind_args required optional args kwargs = Inr (b, x) \<Longrightarrow>
   \<exists>b'. bind_keywords (''self'' # required @ map fst optional)
          (zip (''self'' # required @ map fst optional) (PNone # args)) [] kwargs = Inr (b', x)"
  unfolding bind_args_def Let_def
  by (auto split: sum.splits prod.splits if_splits list.splits)

lemma bind_args_extra_keys:
  assumes "bind_args required optional args kwargs = Inr (b, x)"
  shows "set (map fst x) \<inter> set (''self'' # required @ map fst optional) = {}"
proof -
  from bind_args_Inr_keywords [OF assms] obtain b' where
    "bind_keywords (''self'' # required @ map fst optional)
       (zip (''self'' # required @ map fst optional) (PNone # args)) [] kwargs = Inr (b', x)" ..
  from bind_keywords_extra_keys [OF this] show ?thesis by simp
qed

lemma bind_keywords_full:
  "bind_keywords params bound extra kws = Inr (b, x) \<Longrightarrow>
   set params \<subseteq> set (map fst bound) \<Longrightarrow> b = bound \<and> x = extra @ kws"
  by (induction params bound extra kws rule: bind_keywords.induct) (auto split: if_splits)

lemma bind_args_all_positional:
  assumes "bind_args required [] args kwargs = Inr (b, x)"
    and "length args = length required"
  shows "b = zip (''self'' # required) (PNone # args) \<and> x = kwargs"
proof -
  from bind_args_Inr_keywords [OF assms(1)] obtain b' where
    b': "bind_keywords (''self'' # required) (zip (''self'' # required) (PNone # args)) []
           kwargs = Inr (b', x)"
    by auto
  have "set (''self'' # required) \<subseteq> set (map fst (zip (''self'' # required) (PNone # args)))"
    using assms(2) by simp
  from bind_keywords_full [OF b' this] have "b' = zip (''self'' # required) (PNone # args)"
    and x: "x = kwargs" by simp_all
  with assms(1) b' show ?thesis
    unfolding bind_args_def Let_def
    by (auto split: if_splits list.splits)
qed

lemma get_query_nested_no_path:
  assumes "set (map fst vals) \<inter> {''self'', ''index'', ''mapping'', ''path''} = {}"
  shows "get_query NestedQueryConstructor [i, m] vals = Inl (TypeError (MissingArguments [''path'']))"
  using assms by (simp add: bind_args_def bind_keywords_disjoint)

lemma engine_query_nested_no_path:
  assumes "set (map fst vals) \<inter> {''self'', ''index'', ''mapping'', ''path''} = {}"
  shows "\<exists>t. engine_query [PStr ''nested'', i, m] vals = Inl (TypeError t)"
proof (cases "bind_args [''type'', ''index'', ''mapping''] [] [PStr ''nested'', i, m] vals")
  case (Inl e)
  with bind_args_type_error [OF Inl] show ?thesis by (auto simp: engine_query_def)
next
  case (Inr r)
  obtain b x where r: "r = (b, x)" by (cases r)
  from bind_args_all_positional [of "[''type'', ''index'', ''mapping'']" "[PStr ''nested'', i, m]" vals b x]
    Inr r
  have b: "b = [(''self'', PNone), (''type'', PStr ''nested''), (''index'', i), (''mapping'', m)]"
    and x: "x = vals" by simp_all
  show ?thesis
    using Inr get_query_nested_no_path [OF assms, of i m]
    by (simp add: engine_query_def r b x arg_def dict_get_def construct_def)
qed

section \<open>The nested method of the client\<close>

text \<open>
  Claim C3. \<^verbatim>\<open>ElasticSearchQueryEngine.nested\<close> accepts \<^verbatim>\<open>path\<close> and passes only
  \<^verbatim>\<open>**values\<close> on, so the nested builder is called without its required \<^verbatim>\<open>path\<close>.
  Every call of the method, with any positional values and any keywords, ends in a type
  error and produces no request. When the call itself is well formed (index, mapping and
  path given, no keyword that names a parameter on the way), the error is the builder's
  missing \<^verbatim>\<open>path\<close> argument.
\<close>

theorem nested_path_never_forwarded:
  "(\<exists>t. engine_nested self args kwargs = Inl (TypeError t)) \<and>
   (set (map fst vals) \<inter> {''self'', ''type'', ''index'', ''mapping'', ''path''} = {} \<longrightarrow>
      engine_nested self [index, mapping, path] vals =
        Inl (TypeError (MissingArguments [''path''])))"
proof (intro conjI impI)
  show "\<exists>t. engine_nested self args kwargs = Inl (TypeError t)"
  proof (cases "bind_args [''index'', ''mapping'', ''path''] [] args kwargs")
    case (Inl e)
    with bind_args_type_error [OF Inl] show ?thesis
      by (auto simp: engine_nested_def engine_call_def)
  next
    case (Inr r)
    obtain b x where r: "r = (b, x)" by (cases r)
    from bind_args_extra_keys [of "[''index'', ''mapping'', ''path'']" "[]" args kwargs b x] Inr r
    have "set (map fst x) \<inter> {''self'', ''index'', ''mapping'', ''path''} = {}" by simp
    from engine_query_nested_no_path [OF this, of "arg b ''index''" "arg b ''mapping''"]
    show ?thesis using Inr r by (auto simp: engine_nested_def engine_call_def)
  qed
next
  assume a: "set (map fst vals) \<inter> {''self'', ''type'', ''index'', ''mapping'', ''path''} = {}"
  then have b: "set (map fst vals) \<inter> {''self'', ''index'', ''mapping'', ''path''} = {}" by auto
  show "engine_nested self [index, mapping, path] vals =
        Inl (TypeError (MissingArguments [''path'']))"
    using a get_query_nested_no_path [OF b, of index mapping]
    by (simp add: engine_nested_def engine_call_def engine_query_def bind_args_def
          bind_keywords_disjoint arg_def dict_get_def construct_def)
qed

theorem nested_path_never_forwarded_witness:
  "set (map fst [(''marks'', PInt 44)]) \<inter> {''self'', ''type'', ''index'', ''mapping'', ''path''} = {} \<and>
   engine_nested \<lparr>host = PStr ''http://localhost'', port = PInt 9200\<rparr>
     [PStr ''hinglish11'', PStr ''student/_search'', PStr ''student''] [(''marks'', PInt 44)] =
     Inl (TypeError (MissingArguments [''path'']))"
  using nested_path_never_forwarded [where vals = "[(''marks'', PInt 44)]"
      and self = "\<lparr>host = PStr ''http://localhost'', port = PInt 9200\<rparr>"
      and index = "PStr ''hinglish11''" and mapping = "PStr ''student/_search''"
      and path = "PStr ''student''"]
  by simp


section \<open>The factory's dispatch\<close>

text \<open>
  Claim C6. A type tag outside the set the chain of conditionals recognises (\<^verbatim>\<open>term\<close>,
  \<^verbatim>\<open>match\<close>, \<^verbatim>\<open>multi_match\<close>, \<^verbatim>\<open>nested\<close>, \<^verbatim>\<open>must\<close>, \<^verbatim>\<open>should\<close>,
  \<^verbatim>\<open>bool\<close>) makes \<^verbatim>\<open>construct\<close> fail, whatever the keywords: the failure is the
  assertion whose message is \<^verbatim>\<open>"Unsupported type received as argument: {}"\<close> formatted
  with the offending tag, and no builder is returned.
\<close>

theorem construct_unsupported:
  "type \<notin> {PStr ''term'', PStr ''match'', PStr ''multi_match'', PStr ''nested'',
             PStr ''must'', PStr ''should'', PStr ''bool''} \<Longrightarrow>
   construct type kwargs = Inl (AssertionError ''Unsupported type received as argument: {}'' type)"
  by (simp add: construct_def)

theorem construct_unsupported_witness:
  "PStr ''fuzzy'' \<notin> {PStr ''term'', PStr ''match'', PStr ''multi_match'', PStr ''nested'',
             PStr ''must'', PStr ''should'', PStr ''bool''} \<and>
   construct (PStr ''fuzzy'') [] =
     Inl (AssertionError ''Unsupported type received as argument: {}'' (PStr ''fuzzy''))"
  using construct_unsupported [where type = "PStr ''fuzzy''" and kwargs = "[]"] by simp

text \<open>
  Claim C1 says that all eight tags, \<^verbatim>\<open>filter\<close> among them, give a builder. The chain
  of conditionals has no branch for \<^verbatim>\<open>filter\<close>, although the class
  \<^verbatim>\<open>FilterQueryConstructor\<close> exists: the tag is refused like any unknown one.
\<close>

theorem construct_filter_unsupported:
  "construct (PStr ''filter'') kwargs =
     Inl (AssertionError ''Unsupported type received as argument: {}'' (PStr ''filter''))"
  by (simp add: construct_def)

section \<open>The combinators\<close>

text \<open>
  The loop of \<^verbatim>\<open>ConditionalQueryMixin.get_query\<close> calls
  \<^verbatim>\<open>constructor.get_query(query_type_config)\<close>. Every \<^verbatim>\<open>get_query\<close> requires at least
  \<^verbatim>\<open>index\<close> and \<^verbatim>\<open>mapping\<close>, so the call is a type error in every class, the loop fails
  at its first entry, and the mixin's method never returns a list: it fails on an empty
  keyword dictionary and on a missing or empty \<^verbatim>\<open>query_types\<close> by its assertions, on a
  \<^verbatim>\<open>query_types\<close> that is no dictionary by the missing \<^verbatim>\<open>items\<close>, and on every other
  input at the first entry.
\<close>

lemma get_query_one_positional:
  "\<exists>t. get_query c [query_type_config] [] = Inl (TypeError t)"
  by (cases c) (simp_all add: bind_args_def)

lemma for_query_types_fails:
  "entries \<noteq> [] \<Longrightarrow> \<exists>e. for_query_types entries body = Inl e"
proof (cases entries)
  case Nil
  assume "entries \<noteq> []"
  with Nil show ?thesis by simp
next
  case (Cons entry rest)
  obtain query_type query_type_config where e: "entry = (query_type, query_type_config)"
    by (cases entry)
  show ?thesis
  proof (cases "construct (PStr query_type) []")
    case (Inl err)
    with Cons e show ?thesis by simp
  next
    case (Inr constructor)
    from get_query_one_positional [of constructor query_type_config]
    obtain t where "get_query constructor [query_type_config] [] = Inl (TypeError t)" ..
    with Cons e Inr show ?thesis by simp
  qed
qed

lemma ConditionalQueryMixin_get_query_fails:
  "\<exists>e. ConditionalQueryMixin_get_query index mapping kwargs = Inl e"
proof (cases "kwargs = []")
  case True
  then show ?thesis by simp
next
  case False
  show ?thesis
  proof (cases "dict_get kwargs ''query_types'' PNone")
    case (PDict entries)
    show ?thesis
    proof (cases "entries = []")
      case True
      with False PDict show ?thesis by (simp add: Let_def)
    next
      case nonempty: False
      from for_query_types_fails [OF this, of "[]"] False PDict nonempty show ?thesis
        by (simp add: Let_def)
    qed
  qed (use False in \<open>simp_all add: Let_def\<close>)
qed

lemma combinator_fails:
  "c \<in> {MustQueryConstructor, ShouldQueryConstructor, FilterQueryConstructor, BoolQueryConstructor}
   \<Longrightarrow> \<exists>e. get_query c args kwargs = Inl e"
proof (cases "bind_args [''index'', ''mapping''] [] args kwargs")
  case (Inl e)
  assume "c \<in> {MustQueryConstructor, ShouldQueryConstructor, FilterQueryConstructor, BoolQueryConstructor}"
  with Inl show ?thesis by auto
next
  case (Inr r)
  assume c: "c \<in> {MustQueryConstructor, ShouldQueryConstructor, FilterQueryConstructor, BoolQueryConstructor}"
  obtain b x where r: "r = (b, x)" by (cases r)
  from ConditionalQueryMixin_get_query_fails [of "arg b ''index''" "arg b ''mapping''" x]
  obtain e where "ConditionalQueryMixin_get_query (arg b ''index'') (arg b ''mapping'') x = Inl e" ..
  with c Inr r show ?thesis by auto
qed

text \<open>
  Claim C2 says that the must builder applied to \<^verbatim>\<open>{"term": {"marks": 44}}\<close> returns
  \<^verbatim>\<open>{"must": [{"term": {"marks": 44}}]}\<close>. In the code the call fails with the type
  error of the inner call (the term builder's \<^verbatim>\<open>mapping\<close> is missing), and no call of
  the must, should or filter builder returns a clause.
\<close>

theorem must_term_marks_fails:
  "get_query MustQueryConstructor [index, mapping]
     [(''query_types'', PDict [(''term'', PDict [(''marks'', PInt 44)])])] =
     Inl (TypeError (MissingArguments [''mapping''])) \<and>
   (\<exists>e. get_query MustQueryConstructor args kwargs = Inl e) \<and>
   (\<exists>e. get_query ShouldQueryConstructor args kwargs = Inl e) \<and>
   (\<exists>e. get_query FilterQueryConstructor args kwargs = Inl e)"
proof (intro conjI)
  show "get_query MustQueryConstructor [index, mapping]
     [(''query_types'', PDict [(''term'', PDict [(''marks'', PInt 44)])])] =
     Inl (TypeError (MissingArguments [''mapping'']))"
    by (simp add: bind_args_def arg_def dict_get_def construct_def)
qed (rule combinator_fails, simp)+

text \<open>
  Claim C4 says that the bool builder wraps its sub-clauses under the key \<^verbatim>\<open>"bool"\<close>.
  In the code \<^verbatim>\<open>BoolQueryConstructor.get_query\<close> names \<^verbatim>\<open>FilterQueryConstructor\<close> in its
  \<^verbatim>\<open>super\<close> call; the receiver is no instance of that class, so every call ends in a
  type error.
\<close>

theorem bool_always_type_error:
  "get_query BoolQueryConstructor [index, mapping]
     [(''query_types'', PDict [(''term'', PDict [(''marks'', PInt 44)])])] =
     Inl (TypeError SuperNotInstance) \<and>
   (\<exists>t. get_query BoolQueryConstructor args kwargs = Inl (TypeError t))"
proof
  show "get_query BoolQueryConstructor [index, mapping]
     [(''query_types'', PDict [(''term'', PDict [(''marks'', PInt 44)])])] =
     Inl (TypeError SuperNotInstance)"
    by (simp add: bind_args_def)
  show "\<exists>t. get_query BoolQueryConstructor args kwargs = Inl (TypeError t)"
  proof (cases "bind_args [''index'', ''mapping''] [] args kwargs")
    case (Inl e)
    with bind_args_type_error [OF Inl] show ?thesis by auto
  next
    case (Inr r)
    then show ?thesis by (cases r) simp
  qed
qed

section \<open>Dictionaries\<close>

lemma dict_set_absent: "k \<notin> set (map fst d) \<Longrightarrow> dict_set d k v = d @ [(k, v)]"
  by (induction d) auto

lemma merge_Nil: "merge d [] = d"
  by (simp add: merge_def)

lemma merge_Cons: "merge d ((k, v) # other) = merge (dict_set d k v) other"
  by (simp add: merge_def)

lemma merge_distinct:
  "distinct (map fst other) \<Longrightarrow> set (map fst d) \<inter> set (map fst other) = {} \<Longrightarrow>
   merge d other = d @ other"
proof (induction other arbitrary: d)
  case Nil
  then show ?case by (simp add: merge_Nil)
next
  case (Cons kv other)
  obtain k v where kv: "kv = (k, v)" by (cases kv)
  from Cons.prems kv have absent: "k \<notin> set (map fst d)" by auto
  from Cons.prems kv have "distinct (map fst other)"
    and "set (map fst (d @ [(k, v)])) \<inter> set (map fst other) = {}" by auto
  from Cons.IH [OF this] show ?case
    by (simp add: kv merge_Cons dict_set_absent [OF absent])
qed

lemma merge_empty: "distinct (map fst other) \<Longrightarrow> merge [] other = other"
  using merge_distinct [of other "[]"] by simp

lemma map_of_dict_set: "map_of (dict_set d k v) = (map_of d)(k \<mapsto> v)"
  by (induction d) (auto simp: fun_eq_iff)

lemma map_of_merge:
  "distinct (map fst other) \<Longrightarrow> map_of (merge d other) = map_of d ++ map_of other"
proof (induction other arbitrary: d)
  case Nil
  then show ?case by (simp add: merge_Nil)
next
  case (Cons kv other)
  obtain k v where kv: "kv = (k, v)" by (cases kv)
  from Cons.prems kv have d: "distinct (map fst other)" and k: "k \<notin> fst ` set other" by auto
  from k have none: "map_of other k = None" by (simp add: map_of_eq_None_iff)
  have "map_of (merge d (kv # other)) = map_of (dict_set d k v) ++ map_of other"
    using Cons.IH [OF d, of "dict_set d k v"] by (simp add: kv merge_Cons)
  also have "\<dots> = map_of d ++ map_of (kv # other)"
    using none by (auto simp: kv map_of_dict_set fun_eq_iff map_add_def split: option.splits)
  finally show ?case .
qed

lemma dict_set_keeps:
  "(k, v) \<in> set d \<Longrightarrow> k \<noteq> k' \<Longrightarrow> (k, v) \<in> set (dict_set d k' v')"
  by (induction d) auto

lemma merge_keeps:
  "(k, v) \<in> set d \<Longrightarrow> k \<notin> set (map fst other) \<Longrightarrow> (k, v) \<in> set (merge d other)"
proof (induction other arbitrary: d)
  case Nil
  then show ?case by (simp add: merge_Nil)
next
  case (Cons kv other)
  obtain k' v' where kv: "kv = (k', v')" by (cases kv)
  from Cons.prems kv have "k \<noteq> k'" and "k \<notin> set (map fst other)" by auto
  with Cons.IH [of "dict_set d k' v'"] Cons.prems(1) show ?case
    by (simp add: kv merge_Cons dict_set_keeps)
qed

lemma dict_get_absent: "k \<notin> set (map fst d) \<Longrightarrow> dict_get d k dflt = dflt"
  by (simp add: dict_get_def map_of_eq_None_iff [THEN iffD2])

lemma nested_fields_merge:
  "nested_fields (PStr p) flds acc =
     Inr (merge acc (map (\<lambda>(field, val). (p @ ''.'' @ field, val)) flds))"
  by (induction flds arbitrary: acc) (auto simp: merge_Nil merge_Cons)

lemma distinct_prefixed:
  "distinct (map fst flds) \<Longrightarrow>
   distinct (map fst (map (\<lambda>(field, val). (p @ ''.'' @ field, val)) flds))"
  by (induction flds) (auto simp: image_iff)

lemma nested_fields_distinct:
  assumes "distinct (map fst flds)"
  shows "nested_fields (PStr p) flds [] =
           Inr (map (\<lambda>(field, val). (p @ ''.'' @ field, val)) flds)"
proof -
  have "distinct (map fst (map (\<lambda>(field, val). (p @ ''.'' @ field, val)) flds))"
    using assms by (rule distinct_prefixed)
  from merge_empty [OF this] show ?thesis by (simp add: nested_fields_merge)
qed

section \<open>The nested builder\<close>

lemma nested_with_query_params:
  assumes "path \<noteq> []" and "distinct (map fst query_params)"
  shows "get_query NestedQueryConstructor [index, mapping, PStr path]
           [(''query_params'', PDict query_params),
            (''additional_query_params'', PDict additional)] =
         Inr (PDict [(''nested'', PDict (merge
           [(''path'', PStr path),
            (''query'', PDict (map (\<lambda>(field, val). (path @ ''.'' @ field, val)) query_params))]
           additional))])"
    and "get_query NestedQueryConstructor [index, mapping, PStr path]
           [(''query_params'', PDict query_params)] =
         Inr (PDict [(''nested'', PDict [(''path'', PStr path),
           (''query'', PDict (map (\<lambda>(field, val). (path @ ''.'' @ field, val)) query_params))])])"
  using assms
  by (simp_all add: bind_args_def arg_def dict_get_def NestedQueryConstructor_get_query_def
        nested_fields_distinct merge_Nil)

lemma nested_bare_keywords:
  assumes "path \<noteq> []" and "distinct (map fst vals)" and "vals \<noteq> []"
    and "set (map fst vals) \<inter> {''self'', ''index'', ''mapping'', ''path'', ''query_params''} = {}"
    and "dict_get vals ''additional_query_params'' (PDict []) = PDict additional"
  shows "get_query NestedQueryConstructor [index, mapping, PStr path] vals =
         Inr (PDict [(''nested'', PDict (merge
           [(''path'', PStr path),
            (''query'', PDict (map (\<lambda>(field, val). (path @ ''.'' @ field, val)) vals))]
           additional))])"
proof -
  from assms(4) have keys: "set (map fst vals) \<inter> set [''self'', ''index'', ''mapping'', ''path''] = {}"
    and qp: "''query_params'' \<notin> set (map fst vals)" by auto
  have bound: "bind_args [''index'', ''mapping'', ''path''] [] [index, mapping, PStr path] vals
     = Inr ([(''self'', PNone), (''index'', index), (''mapping'', mapping), (''path'', PStr path)],
            vals)"
    using keys by (simp add: bind_args_def bind_keywords_disjoint)
  have args: "arg [(''self'', PNone), (''index'', index), (''mapping'', mapping), (''path'', PStr path)]
      ''path'' = PStr path"
    by (simp add: arg_def dict_get_def)
  show ?thesis
    using assms(1,3)
    by (simp add: bound args NestedQueryConstructor_get_query_def dict_get_absent [OF qp]
          assms(5) nested_fields_distinct [OF assms(2)])
qed

text \<open>
  Claim C9, amended. The nested builder, called with a non-empty path and the query
  parameters, returns \<^verbatim>\<open>{"nested": d}\<close> where \<open>d\<close> is
  \<^verbatim>\<open>{"path": path, "query": {...}}\<close> with the additional parameters merged into it, and
  the \<^verbatim>\<open>query\<close> sub-mapping holds every field of the query parameters renamed to
  \<^verbatim>\<open>path.field\<close>, in the same order and with the same values. The rewritten fields are
  what the clause has under \<^verbatim>\<open>"query"\<close> unless the additional parameters have an entry
  named \<^verbatim>\<open>query\<close> themselves. This holds when the parameters are given under the
  keyword \<^verbatim>\<open>query_params\<close>, with or without \<^verbatim>\<open>additional_query_params\<close>, and when
  they are given as the keywords themselves (then they are not empty, none of them is
  named like a parameter of the method or like \<^verbatim>\<open>query_params\<close>, and a keyword
  \<^verbatim>\<open>additional_query_params\<close> is both a rewritten field and the mapping that is merged).
  Without additional parameters the clause is
  \<^verbatim>\<open>{"nested": {"path": path, "query": {...}}}\<close>.
\<close>

theorem nested_rewrites_fields:
  assumes "path \<noteq> []" and "distinct (map fst query_params)"
  shows "get_query NestedQueryConstructor [index, mapping, PStr path]
           [(''query_params'', PDict query_params)] =
         Inr (PDict [(''nested'', PDict [(''path'', PStr path),
           (''query'', PDict (map (\<lambda>(field, val). (path @ ''.'' @ field, val)) query_params))])])
       \<and> (query_params \<noteq> [] \<and>
          set (map fst query_params) \<inter> {''self'', ''index'', ''mapping'', ''path'',
            ''query_params'', ''additional_query_params''} = {} \<longrightarrow>
          get_query NestedQueryConstructor [index, mapping, PStr path] query_params =
          Inr (PDict [(''nested'', PDict [(''path'', PStr path),
           (''query'', PDict (map (\<lambda>(field, val). (path @ ''.'' @ field, val)) query_params))])]))
       \<and> get_query NestedQueryConstructor [index, mapping, PStr path]
           [(''query_params'', PDict query_params),
            (''additional_query_params'', PDict additional)] =
         Inr (PDict [(''nested'', PDict (merge
           [(''path'', PStr path),
            (''query'', PDict (map (\<lambda>(field, val). (path @ ''.'' @ field, val)) query_params))]
           additional))])
       \<and> (query_params \<noteq> [] \<and>
          set (map fst query_params) \<inter> {''self'', ''index'', ''mapping'', ''path'',
            ''query_params''} = {} \<and>
          dict_get query_params ''additional_query_params'' (PDict []) = PDict additional \<longrightarrow>
          get_query NestedQueryConstructor [index, mapping, PStr path] query_params =
          Inr (PDict [(''nested'', PDict (merge
           [(''path'', PStr path),
            (''query'', PDict (map (\<lambda>(field, val). (path @ ''.'' @ field, val)) query_params))]
           additional))]))
       \<and> (''query'' \<notin> set (map fst additional) \<longrightarrow>
          (''query'', PDict (map (\<lambda>(field, val). (path @ ''.'' @ field, val)) query_params))
            \<in> set (merge
              [(''path'', PStr path),
               (''query'', PDict (map (\<lambda>(field, val). (path @ ''.'' @ field, val)) query_params))]
              additional))"
proof (intro conjI impI)
  show "get_query NestedQueryConstructor [index, mapping, PStr path]
           [(''query_params'', PDict query_params)] =
         Inr (PDict [(''nested'', PDict [(''path'', PStr path),
           (''query'', PDict (map (\<lambda>(field, val). (path @ ''.'' @ field, val)) query_params))])])"
    using assms by (rule nested_with_query_params(2))
next
  assume a: "query_params \<noteq> [] \<and>
          set (map fst query_params) \<inter> {''self'', ''index'', ''mapping'', ''path'',
            ''query_params'', ''additional_query_params''} = {}"
  then have ne: "query_params \<noteq> []"
    and keys: "set (map fst query_params) \<inter>
        {''self'', ''index'', ''mapping'', ''path'', ''query_params''} = {}"
    and aqp: "''additional_query_params'' \<notin> set (map fst query_params)"
    by auto
  from nested_bare_keywords [OF assms(1,2) ne keys dict_get_absent [OF aqp]]
  show "get_query NestedQueryConstructor [index, mapping, PStr path] query_params =
          Inr (PDict [(''nested'', PDict [(''path'', PStr path),
           (''query'', PDict (map (\<lambda>(field, val). (path @ ''.'' @ field, val)) query_params))])])"
    by (simp add: merge_Nil)
next
  show "get_query NestedQueryConstructor [index, mapping, PStr path]
           [(''query_params'', PDict query_params),
            (''additional_query_params'', PDict additional)] =
         Inr (PDict [(''nested'', PDict (merge
           [(''path'', PStr path),
            (''query'', PDict (map (\<lambda>(field, val). (path @ ''.'' @ field, val)) query_params))]
           additional))])"
    using assms by (rule nested_with_query_params(1))
next
  assume a: "query_params \<noteq> [] \<and>
          set (map fst query_params) \<inter> {''self'', ''index'', ''mapping'', ''path'',
            ''query_params''} = {} \<and>
          dict_get query_params ''additional_query_params'' (PDict []) = PDict additional"
  then show "get_query NestedQueryConstructor [index, mapping, PStr path] query_params =
          Inr (PDict [(''nested'', PDict (merge
           [(''path'', PStr path),
            (''query'', PDict (map (\<lambda>(field, val). (path @ ''.'' @ field, val)) query_params))]
           additional))])"
    using nested_bare_keywords [OF assms(1,2), of additional index mapping] by simp
next
  assume "''query'' \<notin> set (map fst additional)"
  then show "(''query'', PDict (map (\<lambda>(field, val). (path @ ''.'' @ field, val)) query_params))
            \<in> set (merge
              [(''path'', PStr path),
               (''query'', PDict (map (\<lambda>(field, val). (path @ ''.'' @ field, val)) query_params))]
              additional)"
    by (intro merge_keeps) simp_all
qed

theorem nested_rewrites_fields_witness:
  "''student'' \<noteq> [] \<and> distinct (map fst [(''marks'', PInt 44)]) \<and>
   get_query NestedQueryConstructor [PStr ''hinglish11'', PStr ''student/_search'', PStr ''student'']
     [(''query_params'', PDict [(''marks'', PInt 44)])] =
   Inr (PDict [(''nested'', PDict [(''path'', PStr ''student''),
           (''query'', PDict [(''student.marks'', PInt 44)])])]) \<and>
   get_query NestedQueryConstructor [PStr ''hinglish11'', PStr ''student/_search'', PStr ''student'']
     [(''marks'', PInt 44)] =
   Inr (PDict [(''nested'', PDict [(''path'', PStr ''student''),
           (''query'', PDict [(''student.marks'', PInt 44)])])]) \<and>
   get_query NestedQueryConstructor [PStr ''hinglish11'', PStr ''student/_search'', PStr ''student'']
     [(''query_params'', PDict [(''marks'', PInt 44)]),
      (''additional_query_params'', PDict [(''score_mode'', PStr ''avg'')])] =
   Inr (PDict [(''nested'', PDict [(''path'', PStr ''student''),
           (''query'', PDict [(''student.marks'', PInt 44)]),
           (''score_mode'', PStr ''avg'')])])"
  using nested_rewrites_fields [where path = "''student''" and query_params = "[(''marks'', PInt 44)]"
      and index = "PStr ''hinglish11''" and mapping = "PStr ''student/_search''"
      and additional = "[(''score_mode'', PStr ''avg'')]"]
  by (simp add: merge_def)

text \<open>
  Claim C9 as stated says that the rewritten fields are always under \<^verbatim>\<open>"query"\<close>. The
  builder merges the additional parameters last, so an additional entry named
  \<^verbatim>\<open>query\<close> replaces the sub-mapping and no rewritten field remains.
\<close>

theorem nested_query_overwritten:
  "get_query NestedQueryConstructor [PStr ''hinglish11'', PStr ''student/_search'', PStr ''student'']
     [(''query_params'', PDict [(''marks'', PInt 44)]),
      (''additional_query_params'', PDict [(''query'', PInt 7)])] =
   Inr (PDict [(''nested'', PDict [(''path'', PStr ''student''), (''query'', PInt 7)])]) \<and>
   (''query'', PDict [(''student.marks'', PInt 44)])
     \<notin> set [(''path'', PStr ''student''), (''query'', PInt 7)]"
  by (simp add: bind_args_def arg_def dict_get_def NestedQueryConstructor_get_query_def merge_def)


section \<open>The multi-match builder\<close>

text \<open>
  Claim C10. The multi-match builder fails on an empty list of fields with the assertion
  \<^verbatim>\<open>"Invalid fields received as argument: {}"\<close>. On a non-empty list it returns
  \<^verbatim>\<open>{"multi_match": d}\<close> where \<open>d\<close> is \<^verbatim>\<open>{"query": query, "fields": fields, "type": t}\<close>
  with the additional parameters merged into it (\<open>merge\<close>, whose lookups
  \<open>map_of_merge\<close> describes: an additional key wins). The type \<open>t\<close> is
  \<^verbatim>\<open>"cross_fields"\<close> unless the call gives one, by position or as the keyword
  \<^verbatim>\<open>q_type\<close>, which is how the client passes it.
\<close>

theorem multi_match_clause:
  "get_query MultiMatchQueryConstructor [index, mapping, query, PList []]
     [(''additional_query_params'', PDict additional)] =
     Inl (AssertionError ''Invalid fields received as argument: {}'' (PList [])) \<and>
   get_query MultiMatchQueryConstructor [index, mapping, query, PList []] [] =
     Inl (AssertionError ''Invalid fields received as argument: {}'' (PList [])) \<and>
   (flds \<noteq> [] \<longrightarrow>
      get_query MultiMatchQueryConstructor [index, mapping, query, PList flds]
        [(''additional_query_params'', PDict additional)] =
        Inr (PDict [(''multi_match'', PDict (merge
          [(''query'', query), (''fields'', PList flds), (''type'', PStr ''cross_fields'')]
          additional))]) \<and>
      get_query MultiMatchQueryConstructor [index, mapping, query, PList flds, match_type]
        [(''additional_query_params'', PDict additional)] =
        Inr (PDict [(''multi_match'', PDict (merge
          [(''query'', query), (''fields'', PList flds), (''type'', match_type)]
          additional))]) \<and>
      get_query MultiMatchQueryConstructor [index, mapping, query, PList flds] [] =
        Inr (PDict [(''multi_match'', PDict
          [(''query'', query), (''fields'', PList flds), (''type'', PStr ''cross_fields'')])]) \<and>
      get_query MultiMatchQueryConstructor [index, mapping]
        [(''query'', query), (''fields'', PList flds), (''q_type'', match_type),
         (''additional_query_params'', PDict additional)] =
        Inr (PDict [(''multi_match'', PDict (merge
          [(''query'', query), (''fields'', PList flds), (''type'', match_type)]
          additional))]))"
  by (simp add: bind_args_def arg_def dict_get_def MultiMatchQueryConstructor_get_query_def
        merge_Nil)

theorem multi_match_clause_witness:
  "[PStr ''name^2'', PStr ''school^1.2''] \<noteq> [] \<and>
   get_query MultiMatchQueryConstructor
     [PStr ''hinglish11'', PStr ''student/_search'', PStr ''Mangu Singh'',
      PList [PStr ''name^2'', PStr ''school^1.2'']] [] =
     Inr (PDict [(''multi_match'', PDict
       [(''query'', PStr ''Mangu Singh''),
        (''fields'', PList [PStr ''name^2'', PStr ''school^1.2'']),
        (''type'', PStr ''cross_fields'')])]) \<and>
   get_query MultiMatchQueryConstructor
     [PStr ''hinglish11'', PStr ''student/_search'', PStr ''Mangu Singh'',
      PList [PStr ''name^2'', PStr ''school^1.2'']]
     [(''additional_query_params'', PDict [(''type'', PStr ''best_fields''), (''boost'', PInt 2)])] =
     Inr (PDict [(''multi_match'', PDict
       [(''query'', PStr ''Mangu Singh''),
        (''fields'', PList [PStr ''name^2'', PStr ''school^1.2'']),
        (''type'', PStr ''best_fields''), (''boost'', PInt 2)])])"
  using multi_match_clause [where flds = "[PStr ''name^2'', PStr ''school^1.2'']"
      and index = "PStr ''hinglish11''" and mapping = "PStr ''student/_search''"
      and query = "PStr ''Mangu Singh''"
      and additional = "[(''type'', PStr ''best_fields''), (''boost'', PInt 2)]"]
  by (simp add: merge_def)


section \<open>The term and match builders\<close>

lemma term_bare_keywords:
  assumes "vals \<noteq> []" and "distinct (map fst vals)"
    and "set (map fst vals) \<inter> {''self'', ''index'', ''mapping'', ''query_params''} = {}"
    and "dict_get vals ''additional_query_params'' (PDict []) = PDict additional"
  shows "get_query TermQueryConstructor [index, mapping] vals =
           Inr (PDict [(''term'', PDict (merge vals additional))])"
    and "get_query MatchQueryConstructor [index, mapping] vals =
           Inr (PDict [(''match'', PDict (merge vals additional))])"
proof -
  from assms(3) have keys: "set (map fst vals) \<inter> set [''self'', ''index'', ''mapping''] = {}"
    and qp: "''query_params'' \<notin> set (map fst vals)" by auto
  have bound: "bind_args [''index'', ''mapping''] [] [index, mapping] vals =
      Inr ([(''self'', PNone), (''index'', index), (''mapping'', mapping)], vals)"
    using keys by (simp add: bind_args_def bind_keywords_disjoint)
  show "get_query TermQueryConstructor [index, mapping] vals =
           Inr (PDict [(''term'', PDict (merge vals additional))])"
    using assms(1,4)
    by (simp add: bound TermQueryConstructor_get_query_def dict_get_absent [OF qp]
          merge_empty [OF assms(2)])
  show "get_query MatchQueryConstructor [index, mapping] vals =
           Inr (PDict [(''match'', PDict (merge vals additional))])"
    using assms(1,4)
    by (simp add: bound MatchQueryConstructor_get_query_def dict_get_absent [OF qp]
          merge_empty [OF assms(2)])
qed

text \<open>
  Claim C8, amended. When the keywords of a call to the term or match builder have no
  \<^verbatim>\<open>query_params\<close> key (and none that names a parameter of the methods on the way), the
  whole keyword dictionary is the query parameters: the clause is the keywords with the
  additional parameters merged into them. So every keyword, \<^verbatim>\<open>additional_query_params\<close>
  and the client's \<^verbatim>\<open>other_params\<close> among them, is a field of the clause, with the
  value it was given unless the additional parameters have an entry under the same name.
  The client then merges \<^verbatim>\<open>other_params\<close> at the top level as well.
\<close>

theorem keywords_used_as_query_params:
  assumes "vals \<noteq> []" and "distinct (map fst vals)"
    and "set (map fst vals) \<inter> {''self'', ''type'', ''index'', ''mapping'', ''query_params''} = {}"
    and "dict_get vals ''additional_query_params'' (PDict []) = PDict additional"
    and "dict_get vals ''other_params'' (PDict []) = PDict other"
  shows "get_query TermQueryConstructor [index, mapping] vals =
           Inr (PDict [(''term'', PDict (merge vals additional))]) \<and>
         get_query MatchQueryConstructor [index, mapping] vals =
           Inr (PDict [(''match'', PDict (merge vals additional))]) \<and>
         engine_term_query self [index, mapping] vals =
           Inr (send_request self index mapping ''get''
             (PDict (merge [(''query'', PDict [(''term'', PDict (merge vals additional))])] other))) \<and>
         engine_match self [index, mapping] vals =
           Inr (send_request self index mapping ''get''
             (PDict (merge [(''query'', PDict [(''match'', PDict (merge vals additional))])] other))) \<and>
         (\<forall>k v. (k, v) \<in> set vals \<and> k \<notin> set (map fst additional) \<longrightarrow>
            (k, v) \<in> set (merge vals additional))"
proof (intro conjI allI impI)
  from assms(3) have keys: "set (map fst vals) \<inter> {''self'', ''index'', ''mapping'', ''query_params''} = {}"
    and keys': "set (map fst vals) \<inter> set [''self'', ''type'', ''index'', ''mapping''] = {}"
    and keys'': "set (map fst vals) \<inter> set [''self'', ''index'', ''mapping''] = {}"
    by auto
  note bare = term_bare_keywords [OF assms(1,2) keys assms(4)]
  show t: "get_query TermQueryConstructor [index, mapping] vals =
           Inr (PDict [(''term'', PDict (merge vals additional))])"
    by (rule bare(1))
  show m: "get_query MatchQueryConstructor [index, mapping] vals =
           Inr (PDict [(''match'', PDict (merge vals additional))])"
    by (rule bare(2))
  have outer: "bind_args [''index'', ''mapping''] [] [index, mapping] vals =
      Inr ([(''self'', PNone), (''index'', index), (''mapping'', mapping)], vals)"
    using keys'' by (simp add: bind_args_def bind_keywords_disjoint)
  have inner: "\<And>ty. bind_args [''type'', ''index'', ''mapping''] [] [ty, index, mapping] vals =
      Inr ([(''self'', PNone), (''type'', ty), (''index'', index), (''mapping'', mapping)], vals)"
    using keys' by (simp add: bind_args_def bind_keywords_disjoint)
  have args: "arg [(''self'', PNone), (''index'', index), (''mapping'', mapping)] ''index'' = index"
    "arg [(''self'', PNone), (''index'', index), (''mapping'', mapping)] ''mapping'' = mapping"
    "\<And>ty. arg [(''self'', PNone), (''type'', ty), (''index'', index), (''mapping'', mapping)] ''type'' = ty"
    "\<And>ty. arg [(''self'', PNone), (''type'', ty), (''index'', index), (''mapping'', mapping)] ''index'' = index"
    "\<And>ty. arg [(''self'', PNone), (''type'', ty), (''index'', index), (''mapping'', mapping)] ''mapping'' = mapping"
    by (simp_all add: arg_def dict_get_def)
  show "engine_term_query self [index, mapping] vals =
           Inr (send_request self index mapping ''get''
             (PDict (merge [(''query'', PDict [(''term'', PDict (merge vals additional))])] other)))"
    by (simp add: engine_term_query_def engine_call_def engine_query_def outer inner args
          construct_def t assms(5) del: get_query.simps)
  show "engine_match self [index, mapping] vals =
           Inr (send_request self index mapping ''get''
             (PDict (merge [(''query'', PDict [(''match'', PDict (merge vals additional))])] other)))"
    by (simp add: engine_match_def engine_call_def engine_query_def outer inner args
          construct_def m assms(5) del: get_query.simps)
next
  fix k v
  assume "(k, v) \<in> set vals \<and> k \<notin> set (map fst additional)"
  then show "(k, v) \<in> set (merge vals additional)"
    by (simp add: merge_keeps)
qed


theorem keywords_used_as_query_params_witness:
  "get_query TermQueryConstructor [PStr ''hinglish11'', PStr ''student/_search'']
     [(''marks'', PInt 44), (''additional_query_params'', PDict [(''boost'', PInt 2)]),
      (''other_params'', PDict [(''size'', PInt 100)])] =
   Inr (PDict [(''term'', PDict
     [(''marks'', PInt 44), (''additional_query_params'', PDict [(''boost'', PInt 2)]),
      (''other_params'', PDict [(''size'', PInt 100)]), (''boost'', PInt 2)])]) \<and>
   engine_match \<lparr>host = PStr ''http://localhost'', port = PInt 9200\<rparr>
     [PStr ''hinglish11'', PStr ''student/_search'']
     [(''marks'', PInt 44), (''additional_query_params'', PDict [(''boost'', PInt 2)]),
      (''other_params'', PDict [(''size'', PInt 100)])] =
   Inr (send_request \<lparr>host = PStr ''http://localhost'', port = PInt 9200\<rparr>
     (PStr ''hinglish11'') (PStr ''student/_search'') ''get''
     (PDict [(''query'', PDict [(''match'', PDict
       [(''marks'', PInt 44), (''additional_query_params'', PDict [(''boost'', PInt 2)]),
        (''other_params'', PDict [(''size'', PInt 100)]), (''boost'', PInt 2)])]),
       (''size'', PInt 100)]))"
  using keywords_used_as_query_params [where
      vals = "[(''marks'', PInt 44), (''additional_query_params'', PDict [(''boost'', PInt 2)]),
               (''other_params'', PDict [(''size'', PInt 100)])]"
      and additional = "[(''boost'', PInt 2)]" and other = "[(''size'', PInt 100)]"
      and index = "PStr ''hinglish11''" and mapping = "PStr ''student/_search''"
      and self = "\<lparr>host = PStr ''http://localhost'', port = PInt 9200\<rparr>"]
  by (simp add: dict_get_def merge_def)

text \<open>
  Claim C8 as stated says that the key \<^verbatim>\<open>additional_query_params\<close> always keeps its
  mapping as its value in the clause. The merge overwrites it when the mapping has an
  entry named \<^verbatim>\<open>additional_query_params\<close> itself.
\<close>

theorem additional_query_params_overwritten:
  "get_query TermQueryConstructor [PStr ''hinglish11'', PStr ''student/_search'']
     [(''additional_query_params'', PDict [(''additional_query_params'', PInt 5)])] =
   Inr (PDict [(''term'', PDict [(''additional_query_params'', PInt 5)])]) \<and>
   (''additional_query_params'', PDict [(''additional_query_params'', PInt 5)])
     \<notin> set [(''additional_query_params'', PInt 5)]"
  by (simp add: bind_args_def arg_def dict_get_def TermQueryConstructor_get_query_def merge_def)

text \<open>
  Claim C7 says that the term and match builders fail on empty query parameters. The
  assertion of the code tests the keyword dictionary, not the query parameters: a call
  that gives \<^verbatim>\<open>query_params={}\<close> passes it and returns a clause with no field. The
  builders do fail when no keyword is given at all, and \<^verbatim>\<open>marks=44\<close> gives
  \<^verbatim>\<open>{"term": {"marks": 44}}\<close> and \<^verbatim>\<open>{"match": {"marks": 44}}\<close>.
\<close>

theorem empty_query_params_accepted:
  "get_query TermQueryConstructor [index, mapping]
     [(''query_params'', PDict []), (''additional_query_params'', PDict [])] =
     Inr (PDict [(''term'', PDict [])]) \<and>
   get_query MatchQueryConstructor [index, mapping]
     [(''query_params'', PDict []), (''additional_query_params'', PDict [])] =
     Inr (PDict [(''match'', PDict [])]) \<and>
   get_query TermQueryConstructor [index, mapping] [(''query_params'', PDict [])] =
     Inr (PDict [(''term'', PDict [])]) \<and>
   get_query TermQueryConstructor [index, mapping] [] =
     Inl (AssertionError ''Invalid values received as argument: {}'' (PDict [])) \<and>
   get_query MatchQueryConstructor [index, mapping] [] =
     Inl (AssertionError ''Invalid values received as argument: {}'' (PDict [])) \<and>
   get_query TermQueryConstructor [index, mapping] [(''marks'', PInt 44)] =
     Inr (PDict [(''term'', PDict [(''marks'', PInt 44)])]) \<and>
   get_query MatchQueryConstructor [index, mapping] [(''marks'', PInt 44)] =
     Inr (PDict [(''match'', PDict [(''marks'', PInt 44)])])"
  by (simp add: bind_args_def arg_def dict_get_def TermQueryConstructor_get_query_def
        MatchQueryConstructor_get_query_def merge_def)

section \<open>The request body\<close>

text \<open>
  Claim C5 says that \<^verbatim>\<open>other_params\<close> is merged at the top level of the body and
  leaves the query clause as it is. \<^verbatim>\<open>_query\<close> passes all its keywords to the builder,
  \<^verbatim>\<open>other_params\<close> included, so the call of the program's own example,
  \<^verbatim>\<open>term_query(index, mapping_url, marks=44, other_params={"size": 100})\<close>, puts
  \<^verbatim>\<open>other_params\<close> into the term clause as a field; without \<^verbatim>\<open>other_params\<close> the
  clause is \<^verbatim>\<open>{"marks": 44}\<close>.
\<close>

theorem other_params_leak_into_clause:
  "engine_term_query self [index, mapping]
     [(''marks'', PInt 44), (''other_params'', PDict [(''size'', PInt 100)])] =
   Inr (send_request self index mapping ''get''
     (PDict [(''query'', PDict [(''term'', PDict
        [(''marks'', PInt 44), (''other_params'', PDict [(''size'', PInt 100)])])]),
      (''size'', PInt 100)])) \<and>
   engine_term_query self [index, mapping] [(''marks'', PInt 44)] =
   Inr (send_request self index mapping ''get''
     (PDict [(''query'', PDict [(''term'', PDict [(''marks'', PInt 44)])])]))"
  by (simp add: engine_term_query_def engine_call_def engine_query_def bind_args_def arg_def
        dict_get_def construct_def TermQueryConstructor_get_query_def merge_def)


end
